theory Spec2Isabelle
  imports Complex_Main
begin

section \<open>Conventions of the embedding\<close>

text \<open>
  The sensing client is JavaScript. Its numbers are modelled as \<^typ>\<open>real\<close> (scores, RMS
  energies, delays in milliseconds) or \<^typ>\<open>int\<close> (wall-clock readings of \<open>Date.now()\<close>):
  rounding of IEEE doubles and \<open>NaN\<close> are outside the model. A value that may be
  \<open>null\<close> or \<open>undefined\<close> is an \<^typ>\<open>'a option\<close>. A network round-trip is a reply value
  given to the function that awaits it, and what a function does to the outside world
  (requests, timers, callbacks) is the list of events it returns.
\<close>

section \<open>Availability gate client (src/lib/pepperState.jsx)\<close>

text \<open>
  The reply of \<open>GET /pepper/status\<close> as the client sees it: \<open>fetch\<close> rejects, the
  response is not OK, the body is not JSON, or the body is a JSON object whose field
  \<open>proce\<close> is an integer (\<open>Some\<close>) or anything else (\<open>None\<close>).
\<close>

datatype gate_reply =
    GateFetchError
  | GateNotOk nat
  | GateBadJson
  | GateStatus "int option"

definition isPepperAvailable :: "gate_reply \<Rightarrow> bool" where
  "isPepperAvailable r =
     (case r of
        GateFetchError \<Rightarrow> True
      | GateNotOk status \<Rightarrow> True
      | GateBadJson \<Rightarrow> True
      | GateStatus proce \<Rightarrow> proce = Some 1)"

definition isPepperAvailableForAudio :: "gate_reply \<Rightarrow> bool" where
  "isPepperAvailableForAudio r =
     (case r of
        GateFetchError \<Rightarrow> True
      | GateNotOk status \<Rightarrow> True
      | GateBadJson \<Rightarrow> True
      | GateStatus proce \<Rightarrow> proce = Some 1)"

definition isPepperBusy :: "gate_reply \<Rightarrow> bool" where
  "isPepperBusy r = (\<not> isPepperAvailable r)"

section \<open>Emotion normalisation (src/lib/pepperEmotionClient.jsx)\<close>

text \<open>
  A label handed to \<open>normalizeEmotion\<close> is absent (\<open>null\<close>, \<open>undefined\<close>) or a string.
  Strings are ASCII: \<open>toLowerCase\<close> maps \<open>A\<close>..\<open>Z\<close> to \<open>a\<close>..\<open>z\<close> and \<open>trim\<close> removes
  the white space and line terminators of the ASCII range at both ends.
\<close>

datatype js_label = Absent | Str string

definition lower_char :: "char \<Rightarrow> char" where
  "lower_char c =
     (let n = (of_char c :: nat) in if 65 \<le> n \<and> n \<le> 90 then char_of (n + 32) else c)"

definition toLowerCase :: "string \<Rightarrow> string" where
  "toLowerCase s = map lower_char s"

definition is_space :: "char \<Rightarrow> bool" where
  "is_space c = ((of_char c :: nat) \<in> {9, 10, 11, 12, 13, 32})"

definition trim :: "string \<Rightarrow> string" where
  "trim s = rev (dropWhile is_space (rev (dropWhile is_space s)))"

definition normalizeEmotion :: "js_label \<Rightarrow> string" where
  "normalizeEmotion label =
     (case label of
        Absent \<Rightarrow> ''neutral''
      | Str l \<Rightarrow>
          if l = [] then ''neutral''
          else
            (let s = trim (toLowerCase l) in
             if s \<in> set [''joy'', ''happy''] then ''happy''
             else if s \<in> set [''anger'', ''angry''] then ''anger''
             else if s \<in> set [''sad'', ''sadness''] then ''sad''
             else if s \<in> set [''surprise'', ''surprised''] then ''surprise''
             else if s \<in> set [''disgust'', ''disgusted''] then ''disgust''
             else if s \<in> set [''fear'', ''scared'', ''afraid''] then ''fear''
             else if s \<in> set [''neutral'', ''none'', ''...''] then ''neutral''
             else ''neutral''))"

text \<open>
  The closed enumeration of the specification, the labels the client really uses, and
  the spellings the client knows for an emotion other than neutral.
\<close>

definition known_spellings :: "string list" where
  "known_spellings =
     [''joy'', ''happy'', ''anger'', ''angry'', ''sad'', ''sadness'', ''surprise'', ''surprised'',
      ''disgust'', ''disgusted'', ''fear'', ''scared'', ''afraid'']"

definition EmotionLabel :: "string set" where
  "EmotionLabel = {''happy'', ''sad'', ''angry'', ''surprise'', ''fear'', ''disgust'', ''neutral''}"

definition actuator_labels :: "string set" where
  "actuator_labels = {''happy'', ''sad'', ''anger'', ''surprise'', ''fear'', ''disgust'', ''neutral''}"

section \<open>Window aggregation of the visual scheduler (src/hooks/useFaceYolo.jsx)\<close>

subsection \<open>Plain objects used as dictionaries\<close>

text \<open>
  \<open>votes\<close> and \<open>scoresByEmotion\<close> are object literals \<open>{}\<close> keyed by the label. Their own
  properties are an association list in insertion order. A key that is not an own
  property is looked up in \<open>Object.prototype\<close>, whose property names are \<open>proto_keys\<close>:
  each of them reads as a function or an object, which is truthy and has no \<open>push\<close>.
  \<open>Object.entries\<close> lists the keys that are array indices first, in ascending numeric
  order, and then the other keys in insertion order.
\<close>

datatype js_error = TypeError

definition proto_keys :: "string list" where
  "proto_keys =
     [''constructor'', ''__defineGetter__'', ''__defineSetter__'', ''hasOwnProperty'',
      ''__lookupGetter__'', ''__lookupSetter__'', ''isPrototypeOf'', ''propertyIsEnumerable'',
      ''toString'', ''valueOf'', ''__proto__'', ''toLocaleString'']"

fun obj_set :: "(string \<times> 'v) list \<Rightarrow> string \<Rightarrow> 'v \<Rightarrow> (string \<times> 'v) list" where
  "obj_set [] k v = [(k, v)]"
| "obj_set ((k', v') # rest) k v =
     (if k' = k then (k, v) # rest else (k', v') # obj_set rest k v)"

definition is_digit :: "char \<Rightarrow> bool" where
  "is_digit c = (48 \<le> (of_char c :: nat) \<and> (of_char c :: nat) \<le> 57)"

definition dec_value :: "string \<Rightarrow> nat" where
  "dec_value s = foldl (\<lambda>a c. 10 * a + ((of_char c :: nat) - 48)) 0 s"

definition is_array_index :: "string \<Rightarrow> bool" where
  "is_array_index s =
     (s \<noteq> [] \<and> list_all is_digit s \<and> (s = ''0'' \<or> take 1 s \<noteq> ''0'')
      \<and> dec_value s < 4294967295)"

definition object_entries :: "(string \<times> 'v) list \<Rightarrow> (string \<times> 'v) list" where
  "object_entries obj =
     sort_key (\<lambda>e. dec_value (fst e)) (filter (\<lambda>e. is_array_index (fst e)) obj)
     @ filter (\<lambda>e. \<not> is_array_index (fst e)) obj"

subsection \<open>aggregateFrames\<close>

text \<open>
  One analysed frame, as \<open>analyzeFrame\<close> returns it. \<open>frame.label || "neutral"\<close> and
  \<open>frame.score || 0\<close> replace an absent or empty label and an absent or zero score.
\<close>

record frame =
  f_label :: "string option"
  f_score :: "real option"

definition frame_emotion :: "frame \<Rightarrow> string" where
  "frame_emotion f = (case f_label f of None \<Rightarrow> ''neutral'' | Some l \<Rightarrow> if l = [] then ''neutral'' else l)"

definition frame_score :: "frame \<Rightarrow> real" where
  "frame_score f = (case f_score f of None \<Rightarrow> 0 | Some s \<Rightarrow> s)"

text \<open>
  The \<open>forEach\<close> over the frames. At a label that names a property of
  \<open>Object.prototype\<close> the lookup \<open>scoresByEmotion[emotion]\<close> is truthy, no array is
  stored, and the call of \<open>push\<close> raises a TypeError.
\<close>

fun count_votes ::
  "frame list \<Rightarrow> (string \<times> nat) list \<Rightarrow> (string \<times> real list) list
   \<Rightarrow> js_error + ((string \<times> nat) list \<times> (string \<times> real list) list)" where
  "count_votes [] votes scoresByEmotion = Inr (votes, scoresByEmotion)"
| "count_votes (f # fs) votes scoresByEmotion =
     (let emotion = frame_emotion f; score = frame_score f in
      if emotion \<in> set proto_keys then Inl TypeError
      else
        count_votes fs
          (obj_set votes emotion ((case map_of votes emotion of None \<Rightarrow> 0 | Some c \<Rightarrow> c) + 1))
          (obj_set scoresByEmotion emotion
             ((case map_of scoresByEmotion emotion of None \<Rightarrow> [] | Some l \<Rightarrow> l) @ [score])))"

text \<open>The \<open>forEach\<close> over \<open>Object.entries(votes)\<close>: the first entry with the most votes wins.\<close>

fun pick_winner :: "(string \<times> nat) list \<Rightarrow> string \<times> nat \<Rightarrow> string \<times> nat" where
  "pick_winner [] w = w"
| "pick_winner ((emotion, count) # rest) (winnerEmotion, maxVotes) =
     (if count > maxVotes then pick_winner rest (emotion, count)
      else pick_winner rest (winnerEmotion, maxVotes))"

record aggregated =
  agg_label :: string
  agg_score :: real
  agg_confidence :: real
  agg_frameCount :: nat
  agg_votes :: "nat option"
  agg_consensusRatio :: "real option"
  agg_details :: "(string \<times> nat) list option"

definition aggregateFrames :: "frame list \<Rightarrow> js_error + aggregated" where
  "aggregateFrames frames =
     (if frames = [] then
        Inr \<lparr>agg_label = ''neutral'', agg_score = 0, agg_confidence = 0, agg_frameCount = 0,
             agg_votes = None, agg_consensusRatio = None, agg_details = None\<rparr>
      else
        (case count_votes frames [] [] of
           Inl e \<Rightarrow> Inl e
         | Inr (votes, scoresByEmotion) \<Rightarrow>
             (let (winnerEmotion, maxVotes) = pick_winner (object_entries votes) (''neutral'', 0);
                  winnerScores =
                    (case map_of scoresByEmotion winnerEmotion of None \<Rightarrow> [0] | Some l \<Rightarrow> l);
                  avgScore = sum_list winnerScores / real (length winnerScores);
                  consensusRatio = real maxVotes / real (length frames);
                  confidence = avgScore * (0.7 + 0.3 * consensusRatio)
              in Inr \<lparr>agg_label = winnerEmotion, agg_score = confidence,
                      agg_confidence = confidence, agg_frameCount = length frames,
                      agg_votes = Some maxVotes, agg_consensusRatio = Some consensusRatio,
                      agg_details = Some votes\<rparr>)))"

text \<open>What the claim speaks of: the frames that vote for a label, and their scores.\<close>

definition votes_for :: "string \<Rightarrow> frame list \<Rightarrow> nat" where
  "votes_for l frames = length (filter (\<lambda>f. frame_emotion f = l) frames)"

definition scores_for :: "string \<Rightarrow> frame list \<Rightarrow> real list" where
  "scores_for l frames = map frame_score (filter (\<lambda>f. frame_emotion f = l) frames)"

text \<open>A window of three analysed frames: two vote happy, one votes sad.\<close>

definition ex_frames :: "frame list" where
  "ex_frames =
     [\<lparr>f_label = Some ''happy'', f_score = Some 0.8\<rparr>,
      \<lparr>f_label = Some ''sad'', f_score = Some 0.9\<rparr>,
      \<lparr>f_label = Some ''happy'', f_score = Some 0.6\<rparr>]"

subsection \<open>captureWindow\<close>

text \<open>
  The state of the hook, and one run of \<open>captureWindow\<close>. The environment of a run gives
  the gate's reply, whether the effect was cancelled before the run, during the capture
  or during the analysis, and the result of \<open>analyzeFrame\<close> for each captured frame
  (\<open>None\<close> where the analysis failed). The events are what the run did outside.
\<close>

record face_state =
  fs_label :: string
  fs_score :: real
  fs_ready :: bool
  fs_error :: "string option"
  fs_last :: "aggregated option"
  fs_frameCount :: nat
  fs_consensusRatio :: "real option"
  fs_details :: "(string \<times> nat) list option"

definition face_initial :: face_state where
  "face_initial =
     \<lparr>fs_label = ''neutral'', fs_score = 0, fs_ready = False, fs_error = None, fs_last = None,
      fs_frameCount = 0, fs_consensusRatio = Some 0, fs_details = Some []\<rparr>"

record window_env =
  w_cancelled_before :: bool
  w_gate :: gate_reply
  w_cancelled_in_capture :: bool
  w_analysed :: "frame option list"
  w_cancelled_in_analysis :: bool

datatype face_event =
    FaceGateQuery
  | FaceCapture
  | FaceClassify nat
  | FaceSetState
  | FaceSchedule real
  | FaceThrow js_error

definition captureWindow :: "face_state \<Rightarrow> window_env \<Rightarrow> face_state \<times> face_event list" where
  "captureWindow st env =
     (if w_cancelled_before env then (st, [])
      else if \<not> isPepperAvailable (w_gate env) then (st, [FaceGateQuery, FaceSchedule 2000])
      else if w_cancelled_in_capture env then (st, [FaceGateQuery, FaceCapture])
      else if w_cancelled_in_analysis env then
        (st, [FaceGateQuery, FaceCapture, FaceClassify (length (w_analysed env))])
      else
        (let allResults = List.map_filter (\<lambda>r. r) (w_analysed env) in
         case aggregateFrames allResults of
           Inl e \<Rightarrow>
             (st, [FaceGateQuery, FaceCapture, FaceClassify (length (w_analysed env)), FaceThrow e])
         | Inr aggregated \<Rightarrow>
             (st\<lparr>fs_ready := True, fs_error := None, fs_label := agg_label aggregated,
                 fs_score := agg_confidence aggregated,
                 fs_frameCount := agg_frameCount aggregated,
                 fs_consensusRatio := agg_consensusRatio aggregated,
                 fs_details := agg_details aggregated, fs_last := Some aggregated\<rparr>,
              [FaceGateQuery, FaceCapture, FaceClassify (length (w_analysed env)),
               FaceSetState, FaceSchedule 2000])))"

text \<open>The frames of a window whose analysis succeeded.\<close>

definition usable_frames :: "window_env \<Rightarrow> frame list" where
  "usable_frames env = List.map_filter (\<lambda>r. r) (w_analysed env)"

section \<open>Audio capture scheduler (src/hooks/useSpeechEmotion.jsx)\<close>

subsection \<open>Constants and the module-level state\<close>

definition INTERVAL_MS :: real where "INTERVAL_MS = 8000"
definition SILENCE_RMS_MIN :: real where "SILENCE_RMS_MIN = 0.002"
definition SILENCE_RMS_MAX :: real where "SILENCE_RMS_MAX = 0.015"
definition BACKOFF_BASE :: real where "BACKOFF_BASE = 2000"
definition BACKOFF_MAX :: real where "BACKOFF_MAX = 25000"
definition MAX_CONSEC_FAILS :: nat where "MAX_CONSEC_FAILS = 3"
definition QUIET_HITS_FOR_SLOW :: nat where "QUIET_HITS_FOR_SLOW = 3"
definition QUIET_HITS_FOR_ADAPTIVE :: nat where "QUIET_HITS_FOR_ADAPTIVE = 5"

text \<open>
  \<open>vadState\<close> and the variable \<open>SILENCE_RMS_ADAPTIVE\<close> live at module level: they are
  shared by all cycles.
\<close>

record vad_state =
  recentRMS :: "real list"
  consecutiveQuiet :: nat
  consecutiveLoud :: nat
  ambientNoiseLevel :: real
  SILENCE_RMS_ADAPTIVE :: real

definition vad_initial :: vad_state where
  "vad_initial =
     \<lparr>recentRMS = [], consecutiveQuiet = 0, consecutiveLoud = 0, ambientNoiseLevel = 0.003,
      SILENCE_RMS_ADAPTIVE = 0.005\<rparr>"

subsection \<open>precheckLoudness\<close>

text \<open>
  The probe reads one RMS value per animation frame until the probe time is over; the
  list of these values is the input of the model. The scheduler calls the probe only
  with a stream, so the early return for a missing stream is not modelled.
\<close>

record vad_result =
  rmsAvg :: real
  rmsMax :: real
  rmsMin :: real
  rmsDynamic :: real
  hasVoice :: bool
  confidence :: real
  threshold :: real
  ambientNoise :: real

definition probe_avg :: "real list \<Rightarrow> real" where
  "probe_avg ticks = (if length ticks \<noteq> 0 then sum_list ticks / real (length ticks) else 0)"

definition probe_max :: "real list \<Rightarrow> real" where
  "probe_max ticks = foldl max 0 ticks"

definition probe_min :: "real list \<Rightarrow> real" where
  "probe_min ticks = foldl min 1 ticks"

definition precheckLoudness :: "vad_state \<Rightarrow> real list \<Rightarrow> vad_result \<times> vad_state" where
  "precheckLoudness vs ticks =
     (let avg = probe_avg ticks;
          dynamic = probe_max ticks - probe_min ticks;
          pushed = recentRMS vs @ [avg];
          recent = (if length pushed > 10 then tl pushed else pushed);
          sortedRMS = sort recent;
          ambient = sum_list (take 3 sortedRMS) / 3;
          thresh = max SILENCE_RMS_MIN (ambient * 1.5);
          adaptive = min SILENCE_RMS_MAX thresh;
          voice = (avg \<ge> adaptive \<and> dynamic > 0.002);
          conf = (if voice then min 1 (avg / adaptive) else 0)
      in (\<lparr>rmsAvg = avg, rmsMax = probe_max ticks, rmsMin = probe_min ticks,
            rmsDynamic = dynamic, hasVoice = voice, confidence = conf, threshold = adaptive,
            ambientNoise = ambient\<rparr>,
          vs\<lparr>recentRMS := recent, ambientNoiseLevel := ambient,
             SILENCE_RMS_ADAPTIVE := adaptive\<rparr>))"

text \<open>The probes of a whole session, one after the other.\<close>

definition probe_all :: "vad_state \<Rightarrow> real list list \<Rightarrow> vad_state" where
  "probe_all vs history = foldl (\<lambda>v ticks. snd (precheckLoudness v ticks)) vs history"

subsection \<open>The scheduler loop\<close>

text \<open>
  The refs of the hook and the module state. \<open>runningRef\<close> is set on entry of a cycle
  and cleared on each of its exits, so it is false between cycles.
\<close>

record speech_state =
  runningRef :: bool
  failsRef :: nat
  backoffRef :: real
  quietHitsRef :: nat
  enabledRef :: bool
  cleanupRef :: bool
  intervalMsRef :: real
  vad :: vad_state

definition speech_initial :: "real \<Rightarrow> speech_state" where
  "speech_initial intervalMs =
     \<lparr>runningRef = False, failsRef = 0, backoffRef = BACKOFF_BASE, quietHitsRef = 0,
      enabledRef = True, cleanupRef = False, intervalMsRef = intervalMs, vad = vad_initial\<rparr>"

text \<open>
  The reply of \<open>POST /emotion/from-speech\<close>: \<open>fetch\<close> rejects, or a response with its
  status, whether its body (text or JSON) mentions \<open>insufficient\<close> or \<open>out of memory\<close>,
  and its JSON value if it has one.
\<close>

datatype speech_reply =
    SpeechFetchError
  | SpeechResponse nat bool "(string \<times> real) option"

definition responseOrErrorIsInsufficient :: "nat \<Rightarrow> bool \<Rightarrow> bool" where
  "responseOrErrorIsInsufficient status mentions = (status = 429 \<or> status = 503 \<or> mentions)"

definition response_ok :: "nat \<Rightarrow> bool" where
  "response_ok status = (200 \<le> status \<and> status \<le> 299)"

text \<open>
  The environment of one cycle: whether the stream has a live audio track, the gate's
  reply, the probe's readings (\<open>None\<close> when the probe throws), whether the burst is
  recorded, the classifier's reply, and whether the hook is still enabled when the
  cycle reschedules itself.
\<close>

record loop_env =
  l_hasAudio :: bool
  l_gate :: gate_reply
  l_probe :: "real list option"
  l_burst_ok :: bool
  l_reply :: speech_reply
  l_still_enabled :: bool

datatype speech_update =
    Fallback string real string string
  | Classified "string \<times> real"

datatype speech_event =
    SpeechGateQuery
  | SpeechProbe
  | SpeechRecord
  | SpeechClassify
  | SpeechUpdate speech_update
  | SpeechSchedule real

definition pushNeutral :: "string \<Rightarrow> speech_event" where
  "pushNeutral reason = SpeechUpdate (Fallback ''neutral'' 0.5 reason ''lstm-tess-custom'')"

definition pushSilence :: "string \<Rightarrow> speech_event" where
  "pushSilence reason = SpeechUpdate (Fallback ''neutral'' 0.35 reason ''lstm-tess-custom-silence'')"

definition schedule :: "loop_env \<Rightarrow> real \<Rightarrow> speech_event list" where
  "schedule env ms = (if l_still_enabled env then [SpeechSchedule ms] else [])"

definition resetBackoff :: "speech_state \<Rightarrow> speech_state" where
  "resetBackoff st = st\<lparr>failsRef := 0, backoffRef := BACKOFF_BASE\<rparr>"

definition bumpBackoff :: "speech_state \<Rightarrow> real \<times> speech_state" where
  "bumpBackoff st =
     (let b = min BACKOFF_MAX (backoffRef st * 2)
      in (b, st\<lparr>failsRef := failsRef st + 1, backoffRef := b\<rparr>))"

text \<open>The \<open>finally\<close> block of the loop.\<close>

definition loop_finally :: "speech_state \<Rightarrow> speech_state" where
  "loop_finally st = (if failsRef st \<ge> MAX_CONSEC_FAILS then resetBackoff st else st)"

text \<open>A failure path: the backoff grows, a neutral fallback is pushed, the retry is scheduled.\<close>

definition loop_failure ::
  "speech_state \<Rightarrow> loop_env \<Rightarrow> speech_event list \<Rightarrow> string \<Rightarrow> speech_state \<times> speech_event list" where
  "loop_failure st env done reason =
     (let (delay, st') = bumpBackoff st
      in (loop_finally st', done @ [pushNeutral reason] @ schedule env delay))"

definition loop :: "speech_state \<Rightarrow> loop_env \<Rightarrow> speech_state \<times> speech_event list" where
  "loop st env =
     (if \<not> enabledRef st \<or> cleanupRef st \<or> runningRef st then (st, [])
      else if \<not> l_hasAudio env then
        (loop_finally (resetBackoff st),
         [pushNeutral ''no_audio_track''] @ schedule env (intervalMsRef st))
      else if \<not> isPepperAvailableForAudio (l_gate env) then
        (loop_finally (resetBackoff st),
         [SpeechGateQuery, pushNeutral ''pepper_busy''] @ schedule env (intervalMsRef st * 1.5))
      else
        (case l_probe env of
           None \<Rightarrow> loop_failure st env [SpeechGateQuery, SpeechProbe] ''unexpected_error''
         | Some ticks \<Rightarrow>
             (let (vadResult, vad1) = precheckLoudness (vad st) ticks in
              if \<not> hasVoice vadResult then
                (let vad2 = vad1\<lparr>consecutiveQuiet := consecutiveQuiet vad1 + 1,
                                 consecutiveLoud := 0\<rparr>;
                     quiet = quietHitsRef st + 1;
                     vad3 =
                       (if consecutiveQuiet vad2 \<ge> QUIET_HITS_FOR_ADAPTIVE then
                          vad2\<lparr>SILENCE_RMS_ADAPTIVE :=
                                  min SILENCE_RMS_MAX (SILENCE_RMS_ADAPTIVE vad2 * 1.1),
                               consecutiveQuiet := 0\<rparr>
                        else vad2);
                     nextInterval =
                       (if quiet \<ge> QUIET_HITS_FOR_SLOW then intervalMsRef st * 1.5
                        else intervalMsRef st)
                 in (loop_finally (resetBackoff (st\<lparr>vad := vad3, quietHitsRef := quiet\<rparr>)),
                     [SpeechGateQuery, SpeechProbe, pushSilence ''silence'']
                     @ schedule env nextInterval))
              else
                (let st2 = st\<lparr>vad := vad1\<lparr>consecutiveLoud := consecutiveLoud vad1 + 1,
                                            consecutiveQuiet := 0\<rparr>,
                               quietHitsRef := 0\<rparr>
                 in if \<not> l_burst_ok env then
                      loop_failure st2 env [SpeechGateQuery, SpeechProbe, SpeechRecord]
                        ''unexpected_error''
                    else
                      (case l_reply env of
                         SpeechFetchError \<Rightarrow>
                           loop_failure st2 env
                             [SpeechGateQuery, SpeechProbe, SpeechRecord, SpeechClassify]
                             ''fetch_error''
                       | SpeechResponse status mentions json \<Rightarrow>
                           if responseOrErrorIsInsufficient status mentions then
                             loop_failure st2 env
                               [SpeechGateQuery, SpeechProbe, SpeechRecord, SpeechClassify]
                               ''insufficient_resources''
                           else
                             (loop_finally (resetBackoff st2),
                              [SpeechGateQuery, SpeechProbe, SpeechRecord, SpeechClassify]
                              @ (case json of
                                   None \<Rightarrow> []
                                 | Some j \<Rightarrow>
                                     if response_ok status then [SpeechUpdate (Classified j)]
                                     else [])
                              @ schedule env (intervalMsRef st)))))))"








section \<open>Pull-path fusion consumer (src/hooks/useEmotionFusion.jsx)\<close>

text \<open>
  The JSON of \<open>GET /fusion/buffer-stats\<close>. An age that is missing is \<open>None\<close>;
  \<open>stats.face_latest_age_ms || Infinity\<close> turns a missing age and the age 0 into
  \<open>Infinity\<close>, which is above every bound.
\<close>

record fusion_stats =
  face_count :: int
  audio_count :: int
  has_both :: bool
  face_latest_age_ms :: "real option"
  audio_latest_age_ms :: "real option"

definition age_above :: "real option \<Rightarrow> real \<Rightarrow> bool" where
  "age_above age bound =
     (case age of None \<Rightarrow> True | Some a \<Rightarrow> if a = 0 then True else a > bound)"

datatype stats_reply =
    StatsFetchError string
  | StatsNotOk nat
  | StatsBadJson string
  | StatsOk fusion_stats

record fusion_data =
  fd_emotion :: string
  fd_confidence :: real
  fd_strategy :: string
  fd_weight_face :: real
  fd_weight_audio :: real

datatype fuse_reply =
    FuseFetchError string
  | FuseNotOk nat "string option"
  | FuseOk fusion_data

record fusion_config =
  room :: "string option"
  enabled :: bool

record fusion_refs =
  isProcessingRef :: bool
  lastCheck :: int
  lastFaceSeen :: int
  lastAudioSeen :: int
  lastFusionLabel :: "string option"
  lastFusionTs :: real
  fusedEmotion :: "fusion_data option"
  error :: "string option"

definition fusion_initial :: fusion_refs where
  "fusion_initial =
     \<lparr>isProcessingRef = False, lastCheck = 0, lastFaceSeen = 0, lastAudioSeen = 0,
      lastFusionLabel = None, lastFusionTs = 0, fusedEmotion = None, error = None\<rparr>"

record fusion_env =
  fe_gate :: gate_reply
  fe_now :: int
  fe_stats :: stats_reply
  fe_fuse :: fuse_reply
  fe_perfNow :: real

datatype fusion_event =
    FusionGateQuery
  | StatsRequest
  | FuseRequest
  | FusionOnUpdate fusion_data
  | FusionConsoleError string

definition js_includes :: "string \<Rightarrow> string \<Rightarrow> bool" where
  "js_includes s p = list_ex (\<lambda>i. take (length p) (drop i s) = p) [0 ..< Suc (length s)]"

text \<open>The message \<open>No hay detecci\'on\<close>, with the accented letter as its two UTF-8 bytes.\<close>

definition no_hay_deteccion :: string where
  "no_hay_deteccion = ''No hay detecci'' @ [CHR 0xC3, CHR 0xB3] @ ''n''"

fun decimal :: "nat \<Rightarrow> string" where
  "decimal n =
     (if n < 10 then [char_of (48 + n)] else decimal (n div 10) @ [char_of (48 + n mod 10)])"

text \<open>The \<open>catch\<close> and \<open>finally\<close> blocks of \<open>performFusion\<close>.\<close>

definition fusion_catch ::
  "fusion_refs \<Rightarrow> string \<Rightarrow> fusion_event list \<Rightarrow> fusion_refs \<times> fusion_event list" where
  "fusion_catch refs message done =
     (if message \<noteq> [] \<and> \<not> js_includes message no_hay_deteccion then
        (refs\<lparr>error := Some message, isProcessingRef := False\<rparr>,
         done @ [FusionConsoleError message])
      else (refs\<lparr>isProcessingRef := False\<rparr>, done))"

text \<open>The second step of \<open>performFusion\<close>: the request to \<open>POST /fusion/auto-fuse\<close>.\<close>

definition attempt_fuse ::
  "fusion_refs \<Rightarrow> fusion_env \<Rightarrow> fusion_event list \<Rightarrow> fusion_refs \<times> fusion_event list" where
  "attempt_fuse refs env done =
     (case fe_fuse env of
        FuseFetchError message \<Rightarrow> fusion_catch refs message (done @ [FuseRequest])
      | FuseNotOk status detail \<Rightarrow>
          if status = 400 then (refs\<lparr>isProcessingRef := False\<rparr>, done @ [FuseRequest])
          else
            fusion_catch refs
              (case detail of
                 None \<Rightarrow> ''HTTP error '' @ decimal status
               | Some d \<Rightarrow> if d = [] then ''HTTP error '' @ decimal status else d)
              (done @ [FuseRequest])
      | FuseOk data \<Rightarrow>
          (let isSameAsLast = (lastFusionLabel refs = Some (fd_emotion data));
               timeSinceLastFusion = fe_perfNow env - lastFusionTs refs
           in if \<not> isSameAsLast \<or> timeSinceLastFusion > 5000 then
                (refs\<lparr>fusedEmotion := Some data, lastFusionLabel := Some (fd_emotion data),
                      lastFusionTs := fe_perfNow env, error := None,
                      isProcessingRef := False\<rparr>,
                 done @ [FuseRequest, FusionOnUpdate data])
              else (refs\<lparr>error := None, isProcessingRef := False\<rparr>, done @ [FuseRequest])))"

definition performFusion ::
  "fusion_config \<Rightarrow> fusion_refs \<Rightarrow> fusion_env \<Rightarrow> fusion_refs \<times> fusion_event list" where
  "performFusion cfg refs env =
     (if room cfg = None \<or> room cfg = Some [] \<or> \<not> enabled cfg then (refs, [])
      else if isProcessingRef refs then (refs, [])
      else if \<not> isPepperAvailable (fe_gate env) then
        (refs\<lparr>isProcessingRef := False\<rparr>, [FusionGateQuery])
      else if fe_now env - lastCheck refs < 2000 then
        (refs\<lparr>isProcessingRef := False\<rparr>, [FusionGateQuery])
      else
        (case fe_stats env of
           StatsFetchError message \<Rightarrow> fusion_catch refs message [FusionGateQuery, StatsRequest]
         | StatsBadJson message \<Rightarrow> fusion_catch refs message [FusionGateQuery, StatsRequest]
         | StatsNotOk status \<Rightarrow> attempt_fuse refs env [FusionGateQuery, StatsRequest]
         | StatsOk stats \<Rightarrow>
             (let refs1 =
                    refs\<lparr>lastCheck := fe_now env,
                         lastFaceSeen :=
                           (if face_count stats > 0 then fe_now env else lastFaceSeen refs),
                         lastAudioSeen :=
                           (if audio_count stats > 0 then fe_now env else lastAudioSeen refs)\<rparr>
              in if \<not> has_both stats then
                   (refs1\<lparr>isProcessingRef := False\<rparr>, [FusionGateQuery, StatsRequest])
                 else if age_above (face_latest_age_ms stats) 10000
                         \<or> age_above (audio_latest_age_ms stats) 10000 then
                   (refs1\<lparr>isProcessingRef := False\<rparr>, [FusionGateQuery, StatsRequest])
                 else attempt_fuse refs1 env [FusionGateQuery, StatsRequest])))"

text \<open>What the claims speak of: whether an attempt sent a request, and whether it raised an error.\<close>

definition sends_request :: "fusion_event list \<Rightarrow> bool" where
  "sends_request evs = (StatsRequest \<in> set evs \<or> FuseRequest \<in> set evs)"

definition raises_error :: "fusion_refs \<Rightarrow> fusion_refs \<times> fusion_event list \<Rightarrow> bool" where
  "raises_error refs res =
     (error (fst res) \<noteq> error refs \<or> list_ex (\<lambda>ev. case ev of FusionConsoleError m \<Rightarrow> True | _ \<Rightarrow> False) (snd res))"

section \<open>Fusion engine: weighted fusion of two conflicting detections\<close>

text \<open>
  Modelled from the spec: the fusion engine (the backend's \<open>fusion_voting.py\<close>) is not
  among the sources; only ARCHITECTURE.md sketches its dynamic weights. The definitions
  follow section 4.4, step 4, of the specification: base weights 0.45 for the face and
  0.55 for the speech, half of the confidence gap moved to the more confident modality,
  each weight clamped to [0.30, 0.70], the pair renormalised; the label of the higher
  weighted confidence wins, the face on a tie; the fused confidence is that weighted
  confidence times 0.90, clamped to [0, 1].
\<close>

record detection =
  d_label :: string
  d_confidence :: real

definition clamp :: "real \<Rightarrow> real \<Rightarrow> real \<Rightarrow> real" where
  "clamp x lo hi = max lo (min hi x)"

definition dynamic_weights :: "real \<Rightarrow> real \<Rightarrow> real \<times> real" where
  "dynamic_weights face_conf speech_conf =
     (let gap = \<bar>face_conf - speech_conf\<bar>;
          face_raw = (if face_conf > speech_conf then 0.45 + 0.5 * gap
                      else if speech_conf > face_conf then 0.45 - 0.5 * gap else 0.45);
          speech_raw = (if face_conf > speech_conf then 0.55 - 0.5 * gap
                        else if speech_conf > face_conf then 0.55 + 0.5 * gap else 0.55);
          face_weight = clamp face_raw 0.30 0.70;
          speech_weight = clamp speech_raw 0.30 0.70;
          total = face_weight + speech_weight
      in (face_weight / total, speech_weight / total))"

record fusion_result =
  fr_emotion :: string
  fr_confidence :: real
  fr_weight_face :: real
  fr_weight_speech :: real

definition weighted_fusion :: "detection \<Rightarrow> detection \<Rightarrow> fusion_result" where
  "weighted_fusion face speech =
     (let (wf, ws) = dynamic_weights (d_confidence face) (d_confidence speech);
          face_weighted = wf * d_confidence face;
          speech_weighted = ws * d_confidence speech
      in if face_weighted \<ge> speech_weighted then
           \<lparr>fr_emotion = d_label face, fr_confidence = clamp (face_weighted * 0.90) 0 1,
            fr_weight_face = wf, fr_weight_speech = ws\<rparr>
         else
           \<lparr>fr_emotion = d_label speech, fr_confidence = clamp (speech_weighted * 0.90) 0 1,
            fr_weight_face = wf, fr_weight_speech = ws\<rparr>)"

text \<open>
  The sketch of ARCHITECTURE.md (section \<open>Pesos Din\'amicos\<close>), as it is written there: it
  shows the adjustment for a more confident face only.
\<close>

definition architecture_weights :: "real \<Rightarrow> real \<Rightarrow> real \<times> real" where
  "architecture_weights face_score audio_score =
     (let face_weight = (if face_score > audio_score
                         then 0.45 + (face_score - audio_score) * 0.5 else 0.45);
          audio_weight = (if face_score > audio_score
                          then 0.55 - (face_score - audio_score) * 0.5 else 0.55);
          face_weight' = clamp face_weight 0.30 0.70;
          audio_weight' = clamp audio_weight 0.30 0.70;
          total = face_weight' + audio_weight'
      in (face_weight' / total, audio_weight' / total))"

section \<open>Example inputs\<close>

text \<open>Windows of the visual scheduler: the gate reads busy; no frame can be analysed.\<close>

definition busy_window :: window_env where
  "busy_window =
     \<lparr>w_cancelled_before = False, w_gate = GateStatus (Some 0), w_cancelled_in_capture = False,
      w_analysed = [Some \<lparr>f_label = Some ''happy'', f_score = Some 0.8\<rparr>],
      w_cancelled_in_analysis = False\<rparr>"

definition empty_window :: window_env where
  "empty_window =
     \<lparr>w_cancelled_before = False, w_gate = GateStatus (Some 1), w_cancelled_in_capture = False,
      w_analysed = [None, None, None], w_cancelled_in_analysis = False\<rparr>"

text \<open>Cycles of the audio scheduler: the gate reads busy; speech is heard and classified.\<close>

definition busy_cycle :: loop_env where
  "busy_cycle =
     \<lparr>l_hasAudio = True, l_gate = GateStatus (Some 0), l_probe = Some [0.02, 0.08],
      l_burst_ok = True, l_reply = SpeechResponse 200 False (Some (''happy'', 0.9)),
      l_still_enabled = True\<rparr>"

definition success_cycle :: loop_env where
  "success_cycle =
     \<lparr>l_hasAudio = True, l_gate = GateStatus (Some 1), l_probe = Some [0.02, 0.08],
      l_burst_ok = True, l_reply = SpeechResponse 200 False (Some (''happy'', 0.9)),
      l_still_enabled = True\<rparr>"


text \<open>Three probes in a loud room, each with the mean energy 0.03.\<close>

definition loud_probes :: "real list list" where
  "loud_probes = [[0.02, 0.04], [0.02, 0.04], [0.02, 0.04]]"

text \<open>Ticks of the fusion consumer.\<close>

definition active_config :: fusion_config where
  "active_config = \<lparr>room = Some ''test'', enabled = True\<rparr>"

definition happy_fusion :: fusion_data where
  "happy_fusion =
     \<lparr>fd_emotion = ''happy'', fd_confidence = 0.825, fd_strategy = ''consensus_weighted'',
      fd_weight_face = 0.5, fd_weight_audio = 0.5\<rparr>"

text \<open>
  A tick at which the gate is free, the buffer-stats endpoint answers 503 and the fuse
  endpoint answers 400 (no detections).
\<close>

definition stats_down :: fusion_env where
  "stats_down =
     \<lparr>fe_gate = GateStatus (Some 1), fe_now = 1700000000000, fe_stats = StatsNotOk 503,
      fe_fuse = FuseNotOk 400 (Some ''No detections available''), fe_perfNow = 60000\<rparr>"

text \<open>
  A tick at which the gate is free and the buffer-stats endpoint answers 200 with a body
  that is not JSON.
\<close>

definition stats_unparsed :: fusion_env where
  "stats_unparsed =
     \<lparr>fe_gate = GateStatus (Some 1), fe_now = 1700000000000,
      fe_stats = StatsBadJson ''Unexpected token < in JSON at position 0'',
      fe_fuse = FuseNotOk 400 (Some ''No detections available''), fe_perfNow = 60000\<rparr>"

text \<open>A tick at which the gate is free and the buffer holds fresh detections of both modalities.\<close>

definition both_fresh :: fusion_env where
  "both_fresh =
     \<lparr>fe_gate = GateStatus (Some 1), fe_now = 1700000000000,
      fe_stats = StatsOk \<lparr>face_count = 3, audio_count = 1, has_both = True,
                          face_latest_age_ms = Some 1200, audio_latest_age_ms = Some 3400\<rparr>,
      fe_fuse = FuseOk happy_fusion, fe_perfNow = 60000\<rparr>"

text \<open>The conflict of section 8 of the specification: a happy face at 0.9, a sad voice at 0.6.\<close>

definition face_happy :: detection where
  "face_happy = \<lparr>d_label = ''happy'', d_confidence = 0.9\<rparr>"

definition speech_sad :: detection where
  "speech_sad = \<lparr>d_label = ''sad'', d_confidence = 0.6\<rparr>"

section \<open>Results: emotion normalisation\<close>

lemma normalizeEmotion_angry: "normalizeEmotion (Str ''angry'') = ''anger''"
  by (simp add: normalizeEmotion_def trim_def toLowerCase_def lower_char_def is_space_def)

text \<open>
  C6, as stated: every input is normalised to a member of the closed set
  happy, sad, angry, surprise, fear, disgust, neutral. It fails at the input \<open>angry\<close>, a
  member of that set, which the client rewrites to \<open>anger\<close>.
\<close>

theorem normalizeEmotion_closed_set_counterexample:
  "normalizeEmotion (Str ''angry'') = ''anger'' \<and> ''angry'' \<in> EmotionLabel
   \<and> normalizeEmotion (Str ''angry'') \<notin> EmotionLabel"
  by (simp add: normalizeEmotion_angry EmotionLabel_def)

text \<open>
  C6, amended: for every input, absent or any string, the normalised label is one of
  happy, sad, anger, surprise, fear, disgust, neutral (the names of the actuator's
  scripts); an absent or empty label becomes neutral, and so does every string that,
  lower-cased and trimmed, is not a spelling the client knows.
\<close>

theorem normalizeEmotion_actuator_labels:
  "normalizeEmotion label \<in> actuator_labels
   \<and> normalizeEmotion Absent = ''neutral''
   \<and> normalizeEmotion (Str []) = ''neutral''
   \<and> (trim (toLowerCase s) \<notin> set known_spellings \<longrightarrow> normalizeEmotion (Str s) = ''neutral'')"
  by (cases label)
    (simp_all add: normalizeEmotion_def actuator_labels_def known_spellings_def Let_def)

theorem normalizeEmotion_actuator_labels_witness:
  "normalizeEmotion (Str '' Contempt '') = ''neutral''
   \<and> normalizeEmotion (Str ''ANGRY'') \<in> actuator_labels"
proof -
  have "trim (toLowerCase '' Contempt '') = ''contempt''"
    by code_simp
  then have "trim (toLowerCase '' Contempt '') \<notin> set known_spellings"
    by (simp add: known_spellings_def)
  with normalizeEmotion_actuator_labels[of "Str ''ANGRY''" "'' Contempt ''"]
  show ?thesis by simp
qed

section \<open>Results: window aggregation\<close>

lemma map_of_obj_set: "map_of (obj_set xs k v) = (map_of xs)(k \<mapsto> v)"
  by (induction xs) (auto simp: fun_eq_iff)

lemma fst_set_obj_set: "fst ` set (obj_set xs k v) = insert k (fst ` set xs)"
proof (induction xs)
  case Nil
  then show ?case by simp
next
  case (Cons a xs)
  obtain k' v' where a: "a = (k', v')" by (cases a)
  show ?case
  proof (cases "k' = k")
    case True
    with a show ?thesis by simp
  next
    case False
    with a Cons.IH show ?thesis by (simp add: insert_commute)
  qed
qed

lemma distinct_obj_set: "distinct (map fst xs) \<Longrightarrow> distinct (map fst (obj_set xs k v))"
proof (induction xs)
  case Nil
  then show ?case by simp
next
  case (Cons a xs)
  obtain k' v' where a: "a = (k', v')" by (cases a)
  show ?case
  proof (cases "k' = k")
    case True
    with Cons.prems a show ?thesis by simp
  next
    case False
    have "k' \<notin> fst ` set (obj_set xs k v)"
      using Cons.prems a False by (simp add: fst_set_obj_set)
    with Cons a False show ?thesis by simp
  qed
qed

lemma set_object_entries: "set (object_entries obj) = set obj"
  by (auto simp: object_entries_def)

lemma votes_for_Cons:
  "votes_for l (f # fs) = (if frame_emotion f = l then Suc (votes_for l fs) else votes_for l fs)"
  by (simp add: votes_for_def)

lemma scores_for_Cons:
  "scores_for l (f # fs) =
     (if frame_emotion f = l then frame_score f # scores_for l fs else scores_for l fs)"
  by (simp add: scores_for_def)

lemma length_scores_for: "length (scores_for l fs) = votes_for l fs"
  by (simp add: scores_for_def votes_for_def)

lemma scores_for_no_votes: "votes_for l fs = 0 \<Longrightarrow> scores_for l fs = []"
  using length_scores_for[of l fs] by simp

lemma votes_for_le_length: "votes_for l fs \<le> length fs"
  by (simp add: votes_for_def)

lemma count_votes_tally:
  assumes "\<forall>f\<in>set fs. frame_emotion f \<notin> set proto_keys"
    and "distinct (map fst v)"
  shows "\<exists>v' s'. count_votes fs v s = Inr (v', s') \<and> distinct (map fst v')
     \<and> (\<forall>l. map_of v' l =
           (if votes_for l fs = 0 then map_of v l
            else Some ((case map_of v l of None \<Rightarrow> 0 | Some c \<Rightarrow> c) + votes_for l fs)))
     \<and> (\<forall>l. map_of s' l =
           (if votes_for l fs = 0 then map_of s l
            else Some ((case map_of s l of None \<Rightarrow> [] | Some xs \<Rightarrow> xs) @ scores_for l fs)))"
  using assms
proof (induction fs arbitrary: v s)
  case Nil
  then show ?case by (simp add: votes_for_def)
next
  case (Cons f fs)
  let ?e = "frame_emotion f"
  let ?v1 = "obj_set v ?e ((case map_of v ?e of None \<Rightarrow> 0 | Some c \<Rightarrow> c) + 1)"
  let ?s1 = "obj_set s ?e ((case map_of s ?e of None \<Rightarrow> [] | Some l \<Rightarrow> l) @ [frame_score f])"
  have ok: "?e \<notin> set proto_keys" using Cons.prems(1) by simp
  have step: "count_votes (f # fs) v s = count_votes fs ?v1 ?s1"
    using ok by (simp add: Let_def)
  have d1: "distinct (map fst ?v1)" using Cons.prems(2) by (rule distinct_obj_set)
  have rest: "\<forall>f\<in>set fs. frame_emotion f \<notin> set proto_keys" using Cons.prems(1) by simp
  from Cons.IH[OF rest d1, of ?s1] obtain v' s' where
    r: "count_votes fs ?v1 ?s1 = Inr (v', s')" and d: "distinct (map fst v')"
    and cv: "\<And>l. map_of v' l =
           (if votes_for l fs = 0 then map_of ?v1 l
            else Some ((case map_of ?v1 l of None \<Rightarrow> 0 | Some c \<Rightarrow> c) + votes_for l fs))"
    and cs: "\<And>l. map_of s' l =
           (if votes_for l fs = 0 then map_of ?s1 l
            else Some ((case map_of ?s1 l of None \<Rightarrow> [] | Some xs \<Rightarrow> xs) @ scores_for l fs))"
    by blast
  have "\<forall>l. map_of v' l =
           (if votes_for l (f # fs) = 0 then map_of v l
            else Some ((case map_of v l of None \<Rightarrow> 0 | Some c \<Rightarrow> c) + votes_for l (f # fs)))"
    by (simp add: cv map_of_obj_set votes_for_Cons)
  moreover have "\<forall>l. map_of s' l =
           (if votes_for l (f # fs) = 0 then map_of s l
            else Some ((case map_of s l of None \<Rightarrow> [] | Some xs \<Rightarrow> xs) @ scores_for l (f # fs)))"
    by (simp add: cs map_of_obj_set votes_for_Cons scores_for_Cons scores_for_no_votes)
  ultimately show ?case using step r d by simp
qed

lemma pick_winner_max:
  "pick_winner xs (we, mv) = (e, m) \<Longrightarrow>
     (\<forall>(k, c) \<in> set xs. c \<le> m) \<and> mv \<le> m
     \<and> ((e, m) = (we, mv) \<or> ((e, m) \<in> set xs \<and> mv < m))"
proof (induction xs arbitrary: we mv)
  case Nil
  then show ?case by simp
next
  case (Cons a xs)
  obtain k c where a: "a = (k, c)" by (cases a)
  show ?case
  proof (cases "c > mv")
    case True
    with Cons.prems a have "pick_winner xs (k, c) = (e, m)" by simp
    from Cons.IH[OF this] True a show ?thesis by auto
  next
    case False
    with Cons.prems a have "pick_winner xs (we, mv) = (e, m)" by simp
    from Cons.IH[OF this] False a show ?thesis by auto
  qed
qed


lemma sum_list_bounds:
  "\<forall>x\<in>set xs. 0 \<le> x \<and> x \<le> (1::real) \<Longrightarrow> 0 \<le> sum_list xs \<and> sum_list xs \<le> real (length xs)"
  by (induction xs) auto

lemma boosted_mean_bounds:
  fixes t :: real
  assumes "0 < m" and "m \<le> n" and "0 \<le> t" and "t \<le> real m"
  shows "0 \<le> t / real m * (0.7 + 0.3 * (real m / real n))"
    and "t / real m * (0.7 + 0.3 * (real m / real n)) \<le> 1"
proof -
  have n: "0 < real n" using assms by simp
  have a0: "0 \<le> t / real m" using assms by simp
  have a1: "t / real m \<le> 1" using assms by (simp add: divide_le_eq)
  have r0: "0 \<le> real m / real n" using assms by simp
  have r1: "real m / real n \<le> 1" using assms n by (simp add: divide_le_eq)
  have b0: "0 \<le> 0.7 + 0.3 * (real m / real n)" using r0 by simp
  have b1: "0.7 + 0.3 * (real m / real n) \<le> 1" using r1 by simp
  show "0 \<le> t / real m * (0.7 + 0.3 * (real m / real n))"
    using a0 b0 by (rule mult_nonneg_nonneg)
  show "t / real m * (0.7 + 0.3 * (real m / real n)) \<le> 1"
    using mult_mono[OF a1 b1 _ b0] by simp
qed

text \<open>
  C1: for every non-empty window of analysed frames whose labels are classifier labels
  (none of them names a property every JavaScript object inherits), the aggregation
  returns a result; its label has at least as many votes as every other label; its
  confidence is the mean score of the frames that voted for it, times
  0.7 + 0.3 * votes / frames; and it lies in [0, 1] when every score does.
\<close>

theorem aggregateFrames_majority:
  assumes ne: "frames \<noteq> []"
    and keys: "\<forall>f\<in>set frames. frame_emotion f \<notin> set proto_keys"
  shows "\<exists>r. aggregateFrames frames = Inr r
    \<and> 0 < votes_for (agg_label r) frames
    \<and> (\<forall>l. votes_for l frames \<le> votes_for (agg_label r) frames)
    \<and> agg_confidence r =
        sum_list (scores_for (agg_label r) frames) / real (votes_for (agg_label r) frames)
        * (0.7 + 0.3 * (real (votes_for (agg_label r) frames) / real (length frames)))
    \<and> ((\<forall>f\<in>set frames. 0 \<le> frame_score f \<and> frame_score f \<le> 1)
        \<longrightarrow> 0 \<le> agg_confidence r \<and> agg_confidence r \<le> 1)"
proof -
  from count_votes_tally[OF keys, of "[]" "[]"] obtain v s where
    cv: "count_votes frames [] [] = Inr (v, s)" and d: "distinct (map fst v)"
    and tv: "\<And>l. map_of v l = (if votes_for l frames = 0 then None else Some (votes_for l frames))"
    and ts: "\<And>l. map_of s l = (if votes_for l frames = 0 then None else Some (scores_for l frames))"
    by auto
  obtain e m where pw: "pick_winner (object_entries v) (''neutral'', 0) = (e, m)"
    by (cases "pick_winner (object_entries v) (''neutral'', 0)")
  from pick_winner_max[OF pw]
  have mx: "\<And>k c. (k, c) \<in> set v \<Longrightarrow> c \<le> m"
    and alt: "(e, m) = (''neutral'', 0) \<or> ((e, m) \<in> set v \<and> 0 < m)"
    by (auto simp: set_object_entries)
  have entry: "\<And>l. votes_for l frames \<noteq> 0 \<Longrightarrow> (l, votes_for l frames) \<in> set v"
  proof -
    fix l assume "votes_for l frames \<noteq> 0"
    with tv[of l] have "map_of v l = Some (votes_for l frames)" by simp
    then show "(l, votes_for l frames) \<in> set v" by (rule map_of_SomeD)
  qed
  obtain f0 where f0: "f0 \<in> set frames" using ne by (cases frames) auto
  have "votes_for (frame_emotion f0) frames \<noteq> 0"
    using f0 by (auto simp: votes_for_def filter_empty_conv)
  from entry[OF this] mx have "0 < m"
    using \<open>votes_for (frame_emotion f0) frames \<noteq> 0\<close> by fastforce
  with alt have in_v: "(e, m) \<in> set v" by auto
  with d have "map_of v e = Some m" by simp
  with tv[of e] have m_eq: "m = votes_for e frames" and e_votes: "votes_for e frames \<noteq> 0"
    by (auto split: if_splits)
  have ws: "map_of s e = Some (scores_for e frames)" using ts[of e] e_votes by simp
  have most: "\<And>l. votes_for l frames \<le> m"
  proof -
    fix l show "votes_for l frames \<le> m"
    proof (cases "votes_for l frames = 0")
      case True then show ?thesis by simp
    next
      case False from mx[OF entry[OF False]] show ?thesis .
    qed
  qed
  let ?conf = "sum_list (scores_for e frames) / real m * (0.7 + 0.3 * (real m / real (length frames)))"
  let ?r = "\<lparr>agg_label = e, agg_score = ?conf, agg_confidence = ?conf,
             agg_frameCount = length frames, agg_votes = Some m,
             agg_consensusRatio = Some (real m / real (length frames)),
             agg_details = Some v\<rparr>"
  have res: "aggregateFrames frames = Inr ?r"
    using ne by (simp add: aggregateFrames_def cv pw ws length_scores_for m_eq Let_def mult.commute)
  have bounds: "(\<forall>f\<in>set frames. 0 \<le> frame_score f \<and> frame_score f \<le> 1)
        \<longrightarrow> 0 \<le> ?conf \<and> ?conf \<le> 1"
  proof
    assume a: "\<forall>f\<in>set frames. 0 \<le> frame_score f \<and> frame_score f \<le> 1"
    then have "\<forall>x\<in>set (scores_for e frames). 0 \<le> x \<and> x \<le> 1"
      by (auto simp: scores_for_def)
    from sum_list_bounds[OF this]
    have t0: "0 \<le> sum_list (scores_for e frames)"
      and t1: "sum_list (scores_for e frames) \<le> real m"
      by (simp_all add: length_scores_for m_eq)
    have mn: "m \<le> length frames" using votes_for_le_length[of e frames] m_eq by simp
    from boosted_mean_bounds[OF \<open>0 < m\<close> mn t0 t1] show "0 \<le> ?conf \<and> ?conf \<le> 1" by simp
  qed
  show ?thesis
    using res most \<open>0 < m\<close> bounds m_eq by (intro exI[of _ ?r]) simp
qed

lemma ex_frames_value:
  "aggregateFrames ex_frames = Inr r \<Longrightarrow> agg_label r = ''happy'' \<and> agg_confidence r = 0.63"
  by (auto simp: aggregateFrames_def ex_frames_def frame_emotion_def frame_score_def proto_keys_def
       object_entries_def is_array_index_def is_digit_def Let_def)

theorem aggregateFrames_majority_witness:
  "ex_frames \<noteq> [] \<and> list_all (\<lambda>f. frame_emotion f \<notin> set proto_keys) ex_frames
   \<and> (\<exists>r. aggregateFrames ex_frames = Inr r \<and> agg_label r = ''happy''
        \<and> votes_for ''happy'' ex_frames = 2
        \<and> agg_confidence r = 0.63 \<and> 0 \<le> agg_confidence r \<and> agg_confidence r \<le> 1)"
proof -
  have h1: "ex_frames \<noteq> []" by (simp add: ex_frames_def)
  have h2: "\<forall>f\<in>set ex_frames. frame_emotion f \<notin> set proto_keys"
    by (simp add: ex_frames_def frame_emotion_def proto_keys_def)
  have h3: "\<forall>f\<in>set ex_frames. 0 \<le> frame_score f \<and> frame_score f \<le> 1"
    by (simp add: ex_frames_def frame_score_def)
  from aggregateFrames_majority[OF h1 h2] h3 obtain r where
    r: "aggregateFrames ex_frames = Inr r" and b: "0 \<le> agg_confidence r \<and> agg_confidence r \<le> 1"
    by blast
  have v: "votes_for ''happy'' ex_frames = 2"
    by (simp add: votes_for_def ex_frames_def frame_emotion_def)
  from ex_frames_value[OF r] r b v h1 h2 show ?thesis
    by (simp add: list_all_iff)
qed

section \<open>Results: the empty window\<close>

text \<open>
  C7, as stated: a window whose analysis yields no usable frame is skipped and emits no
  classification result. At the window \<open>empty_window\<close>, where the three analyses fail,
  the hook changes its state: it stores the result neutral with score 0 and 0 frames.
\<close>

theorem captureWindow_no_frames_counterexample:
  "usable_frames empty_window = []
   \<and> fst (captureWindow face_initial empty_window) \<noteq> face_initial
   \<and> fs_last (fst (captureWindow face_initial empty_window))
       = Some \<lparr>agg_label = ''neutral'', agg_score = 0, agg_confidence = 0, agg_frameCount = 0,
               agg_votes = None, agg_consensusRatio = None, agg_details = None\<rparr>
   \<and> FaceSetState \<in> set (snd (captureWindow face_initial empty_window))"
  by (simp add: usable_frames_def empty_window_def captureWindow_def isPepperAvailable_def
      aggregateFrames_def face_initial_def List.map_filter_simps)

text \<open>
  C7, amended: a window that is not cancelled, passes the gate and yields no usable frame
  is not an error (no exception, \<open>error\<close> stays null), but it is not skipped: the
  aggregation returns the fallback neutral with score and confidence 0 and 0 frames, the
  hook stores it as its label, score and last result, and the next window is scheduled
  after 2 s.
\<close>

theorem captureWindow_no_frames:
  assumes "\<not> w_cancelled_before env" "isPepperAvailable (w_gate env)"
    "\<not> w_cancelled_in_capture env" "\<not> w_cancelled_in_analysis env"
    "usable_frames env = []"
  shows "captureWindow st env =
     (st\<lparr>fs_ready := True, fs_error := None, fs_label := ''neutral'', fs_score := 0,
         fs_frameCount := 0, fs_consensusRatio := None, fs_details := None,
         fs_last := Some \<lparr>agg_label = ''neutral'', agg_score = 0, agg_confidence = 0,
                          agg_frameCount = 0, agg_votes = None, agg_consensusRatio = None,
                          agg_details = None\<rparr>\<rparr>,
      [FaceGateQuery, FaceCapture, FaceClassify (length (w_analysed env)), FaceSetState,
       FaceSchedule 2000])"
  using assms by (simp add: captureWindow_def usable_frames_def aggregateFrames_def)

theorem captureWindow_no_frames_witness:
  "fs_label (fst (captureWindow face_initial empty_window)) = ''neutral''
   \<and> fs_score (fst (captureWindow face_initial empty_window)) = 0
   \<and> fs_error (fst (captureWindow face_initial empty_window)) = None
   \<and> snd (captureWindow face_initial empty_window) =
       [FaceGateQuery, FaceCapture, FaceClassify 3, FaceSetState, FaceSchedule 2000]"
proof -
  have h: "\<not> w_cancelled_before empty_window" "isPepperAvailable (w_gate empty_window)"
    "\<not> w_cancelled_in_capture empty_window" "\<not> w_cancelled_in_analysis empty_window"
    "usable_frames empty_window = []"
    by (simp_all add: empty_window_def isPepperAvailable_def usable_frames_def
        List.map_filter_simps)
  show ?thesis
    unfolding captureWindow_no_frames[OF h, of face_initial]
    by (simp add: empty_window_def)
qed

section \<open>Results: the availability gate in the schedulers\<close>

lemma captureWindow_busy:
  "\<not> w_cancelled_before env \<Longrightarrow> \<not> isPepperAvailable (w_gate env) \<Longrightarrow>
   captureWindow st env = (st, [FaceGateQuery, FaceSchedule 2000])"
  by (simp add: captureWindow_def)

lemma captureWindow_capture_after_gate:
  "FaceCapture \<in> set (snd (captureWindow st env)) \<Longrightarrow>
   isPepperAvailable (w_gate env) \<and> take 1 (snd (captureWindow st env)) = [FaceGateQuery]"
  by (auto simp: captureWindow_def Let_def split: if_splits sum.splits)

lemma loop_busy:
  assumes "enabledRef st" "\<not> cleanupRef st" "\<not> runningRef st" "l_hasAudio env"
    "\<not> isPepperAvailableForAudio (l_gate env)"
  shows "loop st env =
     (resetBackoff st,
      [SpeechGateQuery, pushNeutral ''pepper_busy''] @ schedule env (intervalMsRef st * 1.5))"
  using assms by (simp add: loop_def loop_finally_def resetBackoff_def MAX_CONSEC_FAILS_def)

lemma loop_sampling_after_gate:
  assumes "SpeechProbe \<in> set (snd (loop st env)) \<or> SpeechRecord \<in> set (snd (loop st env))
           \<or> SpeechClassify \<in> set (snd (loop st env))"
  shows "isPepperAvailableForAudio (l_gate env) \<and> take 1 (snd (loop st env)) = [SpeechGateQuery]"
  using assms
  by (auto simp: loop_def loop_failure_def bumpBackoff_def Let_def pushNeutral_def pushSilence_def
      schedule_def
      split: if_splits option.splits prod.splits speech_reply.splits)

text \<open>
  C9: the visual scheduler that finds the gate busy does nothing but schedule its retry
  after 2000 ms; it captures only after a gate query that read available. The audio
  scheduler (with a live audio track) that finds the gate busy pushes a neutral fallback,
  leaves the voice-activity state alone and schedules its retry after 1.5 times its
  interval; it probes, records and classifies only after a gate query that read
  available.
\<close>

theorem gate_busy_skips_cycle:
  "(\<not> w_cancelled_before wenv \<and> \<not> isPepperAvailable (w_gate wenv) \<longrightarrow>
      captureWindow fstate wenv = (fstate, [FaceGateQuery, FaceSchedule 2000]))
   \<and> (FaceCapture \<in> set (snd (captureWindow fstate wenv)) \<longrightarrow>
        isPepperAvailable (w_gate wenv) \<and> take 1 (snd (captureWindow fstate wenv)) = [FaceGateQuery])
   \<and> (enabledRef st \<and> \<not> cleanupRef st \<and> \<not> runningRef st \<and> l_hasAudio env
        \<and> \<not> isPepperAvailableForAudio (l_gate env) \<and> l_still_enabled env \<longrightarrow>
        snd (loop st env) =
          [SpeechGateQuery, pushNeutral ''pepper_busy'', SpeechSchedule (intervalMsRef st * 1.5)]
        \<and> vad (fst (loop st env)) = vad st)
   \<and> (SpeechProbe \<in> set (snd (loop st env)) \<or> SpeechRecord \<in> set (snd (loop st env))
        \<or> SpeechClassify \<in> set (snd (loop st env)) \<longrightarrow>
        isPepperAvailableForAudio (l_gate env) \<and> take 1 (snd (loop st env)) = [SpeechGateQuery])"
  using captureWindow_busy[of wenv fstate] captureWindow_capture_after_gate[of fstate wenv]
    loop_busy[of st env] loop_sampling_after_gate[of st env]
  by (simp add: schedule_def resetBackoff_def)

theorem gate_busy_skips_cycle_witness:
  "captureWindow face_initial busy_window = (face_initial, [FaceGateQuery, FaceSchedule 2000])
   \<and> snd (loop (speech_initial INTERVAL_MS) busy_cycle) =
       [SpeechGateQuery, pushNeutral ''pepper_busy'', SpeechSchedule 12000]"
  using gate_busy_skips_cycle[of busy_window face_initial "speech_initial INTERVAL_MS" busy_cycle]
  by (simp add: busy_window_def busy_cycle_def speech_initial_def isPepperAvailable_def
      isPepperAvailableForAudio_def INTERVAL_MS_def)

lemma captureWindow_gate_cong:
  "isPepperAvailable g = isPepperAvailable g' \<Longrightarrow>
   captureWindow fstate (wenv\<lparr>w_gate := g\<rparr>) = captureWindow fstate (wenv\<lparr>w_gate := g'\<rparr>)"
  by (simp add: captureWindow_def split: sum.split)

lemma schedule_gate: "schedule (env\<lparr>l_gate := g\<rparr>) ms = schedule env ms"
  by (simp add: schedule_def)

lemma loop_failure_gate:
  "loop_failure st (env\<lparr>l_gate := g\<rparr>) done reason = loop_failure st env done reason"
  by (simp add: loop_failure_def schedule_gate)

lemma loop_gate_cong:
  "isPepperAvailableForAudio g = isPepperAvailableForAudio g' \<Longrightarrow>
   loop st (env\<lparr>l_gate := g\<rparr>) = loop st (env\<lparr>l_gate := g'\<rparr>)"
  by (simp add: loop_def schedule_gate loop_failure_gate Let_def
      split: option.split prod.split speech_reply.split)

lemma attempt_fuse_gate: "attempt_fuse refs (fenv\<lparr>fe_gate := g\<rparr>) done = attempt_fuse refs fenv done"
  by (simp add: attempt_fuse_def split: fuse_reply.split)

lemma performFusion_gate_cong:
  "isPepperAvailable g = isPepperAvailable g' \<Longrightarrow>
   performFusion cfg refs (fenv\<lparr>fe_gate := g\<rparr>) = performFusion cfg refs (fenv\<lparr>fe_gate := g'\<rparr>)"
  by (simp add: performFusion_def attempt_fuse_gate Let_def split: stats_reply.split)

lemma gate_failure_reads_available:
  "isPepperAvailable GateFetchError" "isPepperAvailable (GateNotOk status)"
  "isPepperAvailable GateBadJson" "isPepperAvailable (GateStatus (Some 1))"
  "isPepperAvailableForAudio GateFetchError" "isPepperAvailableForAudio (GateNotOk status)"
  "isPepperAvailableForAudio GateBadJson" "isPepperAvailableForAudio (GateStatus (Some 1))"
  by (simp_all add: isPepperAvailable_def isPepperAvailableForAudio_def)

text \<open>
  C10: when the status request is rejected or answered with a status that is not OK,
  \<open>isPepperAvailable\<close> and \<open>isPepperAvailableForAudio\<close> return true, and a window of the
  visual scheduler, a cycle of the audio scheduler and a tick of the fusion consumer run
  exactly as they do when the gate answers available (\<open>proce = 1\<close>).
\<close>

theorem gate_fails_open:
  "isPepperAvailable GateFetchError \<and> isPepperAvailable (GateNotOk status)
   \<and> isPepperAvailableForAudio GateFetchError \<and> isPepperAvailableForAudio (GateNotOk status)
   \<and> captureWindow fstate (wenv\<lparr>w_gate := GateFetchError\<rparr>)
       = captureWindow fstate (wenv\<lparr>w_gate := GateStatus (Some 1)\<rparr>)
   \<and> captureWindow fstate (wenv\<lparr>w_gate := GateNotOk status\<rparr>)
       = captureWindow fstate (wenv\<lparr>w_gate := GateStatus (Some 1)\<rparr>)
   \<and> loop st (env\<lparr>l_gate := GateFetchError\<rparr>) = loop st (env\<lparr>l_gate := GateStatus (Some 1)\<rparr>)
   \<and> loop st (env\<lparr>l_gate := GateNotOk status\<rparr>) = loop st (env\<lparr>l_gate := GateStatus (Some 1)\<rparr>)
   \<and> performFusion cfg refs (fenv\<lparr>fe_gate := GateFetchError\<rparr>)
       = performFusion cfg refs (fenv\<lparr>fe_gate := GateStatus (Some 1)\<rparr>)
   \<and> performFusion cfg refs (fenv\<lparr>fe_gate := GateNotOk status\<rparr>)
       = performFusion cfg refs (fenv\<lparr>fe_gate := GateStatus (Some 1)\<rparr>)"
  by (intro conjI gate_failure_reads_available captureWindow_gate_cong loop_gate_cong
      performFusion_gate_cong)
    (simp_all add: gate_failure_reads_available)

theorem gate_fails_open_witness:
  "snd (captureWindow face_initial (empty_window\<lparr>w_gate := GateFetchError\<rparr>))
     = [FaceGateQuery, FaceCapture, FaceClassify 3, FaceSetState, FaceSchedule 2000]
   \<and> snd (performFusion active_config fusion_initial (both_fresh\<lparr>fe_gate := GateNotOk 503\<rparr>))
     = [FusionGateQuery, StatsRequest, FuseRequest, FusionOnUpdate happy_fusion]"
proof -
  have "snd (captureWindow face_initial (empty_window\<lparr>w_gate := GateStatus (Some 1)\<rparr>))
     = [FaceGateQuery, FaceCapture, FaceClassify 3, FaceSetState, FaceSchedule 2000]"
    by (simp add: captureWindow_def empty_window_def isPepperAvailable_def aggregateFrames_def
        List.map_filter_simps)
  moreover have
    "snd (performFusion active_config fusion_initial (both_fresh\<lparr>fe_gate := GateStatus (Some 1)\<rparr>))
     = [FusionGateQuery, StatsRequest, FuseRequest, FusionOnUpdate happy_fusion]"
    by (simp add: performFusion_def active_config_def fusion_initial_def both_fresh_def
        isPepperAvailable_def age_above_def attempt_fuse_def Let_def)
  ultimately show ?thesis
    using gate_fails_open[of 503 face_initial empty_window "speech_initial INTERVAL_MS"
        success_cycle active_config fusion_initial both_fresh]
    by simp
qed

section \<open>Results: failure backoff of the audio scheduler\<close>























section \<open>Results: adaptive voice-activity threshold\<close>

lemma precheckLoudness_state:
  "snd (precheckLoudness vs ticks) =
     vs\<lparr>recentRMS := (if length (recentRMS vs) \<ge> 10 then tl (recentRMS vs @ [probe_avg ticks])
                       else recentRMS vs @ [probe_avg ticks]),
        ambientNoiseLevel :=
          sum_list (take 3 (sort (if length (recentRMS vs) \<ge> 10
                                  then tl (recentRMS vs @ [probe_avg ticks])
                                  else recentRMS vs @ [probe_avg ticks]))) / 3,
        SILENCE_RMS_ADAPTIVE :=
          min SILENCE_RMS_MAX (max SILENCE_RMS_MIN
            (sum_list (take 3 (sort (if length (recentRMS vs) \<ge> 10
                                  then tl (recentRMS vs @ [probe_avg ticks])
                                  else recentRMS vs @ [probe_avg ticks]))) / 3 * 1.5))\<rparr>"
  by (simp add: precheckLoudness_def Let_def)

lemma precheckLoudness_threshold_returned:
  "threshold (fst (precheckLoudness vs ticks)) = SILENCE_RMS_ADAPTIVE (snd (precheckLoudness vs ticks))"
  by (simp add: precheckLoudness_def Let_def)

lemma rolling_window:
  "length xs \<le> 10 \<Longrightarrow>
   (if length xs \<ge> 10 then tl (xs @ [a]) else xs @ [a]) = drop (length (xs @ [a]) - 10) (xs @ [a])"
  by (cases xs) (auto simp: drop_Suc)

lemma lowest_three:
  fixes w :: "real list"
  shows "\<forall>a\<in>set (take 3 (sort w)). \<forall>b\<in>set (drop 3 (sort w)). a \<le> b"
proof -
  have "sorted (take 3 (sort w) @ drop 3 (sort w))" by simp
  then show ?thesis unfolding sorted_append by blast
qed

text \<open>From the initial state, the window is the last 10 readings of the session.\<close>

lemma probe_all_snoc:
  "probe_all vs (history @ [ticks]) = snd (precheckLoudness (probe_all vs history) ticks)"
  by (simp add: probe_all_def)

lemma last_ten_snoc:
  "drop (length (drop (length xs - 10) xs @ [a]) - 10) (drop (length xs - 10) xs @ [a])
     = drop (length (xs @ [a]) - 10) (xs @ [a])"
proof (cases "length xs < 10")
  case True
  then show ?thesis by simp
next
  case False
  then have "length xs - 10 + 1 = Suc (length xs) - 10" by simp
  with False show ?thesis by (simp add: Suc_diff_le)
qed

lemma probe_all_window:
  "recentRMS (probe_all vad_initial history)
     = drop (length history - 10) (map probe_avg history)"
proof (induction history rule: rev_induct)
  case Nil
  show ?case by (simp add: probe_all_def vad_initial_def)
next
  case (snoc ticks history)
  let ?w = "drop (length history - 10) (map probe_avg history)"
  have len: "length ?w \<le> 10" by simp
  have "recentRMS (probe_all vad_initial (history @ [ticks]))
      = (if length ?w \<ge> 10 then tl (?w @ [probe_avg ticks]) else ?w @ [probe_avg ticks])"
    by (simp add: probe_all_snoc precheckLoudness_state snoc.IH)
  also have "\<dots> = drop (length (?w @ [probe_avg ticks]) - 10) (?w @ [probe_avg ticks])"
    using len by (rule rolling_window)
  also have "\<dots> = drop (length (map probe_avg history @ [probe_avg ticks]) - 10)
                     (map probe_avg history @ [probe_avg ticks])"
    using last_ten_snoc[of "map probe_avg history" "probe_avg ticks"] by simp
  finally show ?case by simp
qed

lemma loud_probes_state:
  "probe_all vad_initial loud_probes =
     \<lparr>recentRMS = [0.03, 0.03, 0.03], consecutiveQuiet = 0, consecutiveLoud = 0,
      ambientNoiseLevel = 0.03, SILENCE_RMS_ADAPTIVE = 0.015\<rparr>"
  by (simp add: probe_all_def loud_probes_def precheckLoudness_state vad_initial_def probe_avg_def
      SILENCE_RMS_MAX_def SILENCE_RMS_MIN_def)

text \<open>
  C4, as stated: after every probe the adaptive threshold is
  max (floor, 1.5 * ambient noise). After three probes with the mean energy 0.03 the
  ambient noise is 0.03, the mean of the three lowest readings, and the threshold is
  0.015, not 0.045: it is capped at \<open>SILENCE_RMS_MAX\<close>.
\<close>

theorem adaptive_threshold_counterexample:
  "SILENCE_RMS_ADAPTIVE (probe_all vad_initial loud_probes) = 0.015
   \<and> max SILENCE_RMS_MIN (1.5 * ambientNoiseLevel (probe_all vad_initial loud_probes)) = 0.045
   \<and> SILENCE_RMS_ADAPTIVE (probe_all vad_initial loud_probes)
       \<noteq> max SILENCE_RMS_MIN (1.5 * ambientNoiseLevel (probe_all vad_initial loud_probes))
   \<and> ambientNoiseLevel (probe_all vad_initial loud_probes)
       = sum_list (take 3 (sort (recentRMS (probe_all vad_initial loud_probes)))) / 3"
  by (simp add: loud_probes_state SILENCE_RMS_MIN_def)

text \<open>
  C4, amended: a probe appends its mean energy to the window and keeps the last 10
  readings. Once the window holds at least three readings, the ambient noise is the mean
  of the three lowest readings of the window, and the adaptive threshold, which the
  probe also returns, is min (cap, max (floor, 1.5 * ambient noise)) with the floor
  0.002 and the cap 0.015.
\<close>

theorem adaptive_threshold_after_probe:
  assumes "length (recentRMS vs) \<le> 10" and "2 \<le> length (recentRMS vs)"
  shows "let vs' = snd (precheckLoudness vs ticks);
             readings = recentRMS vs @ [probe_avg ticks];
             window = drop (length readings - 10) readings;
             lows = take 3 (sort window)
         in recentRMS vs' = window \<and> length window \<le> 10 \<and> length lows = 3
            \<and> (\<forall>a\<in>set lows. \<forall>b\<in>set (drop 3 (sort window)). a \<le> b)
            \<and> ambientNoiseLevel vs' = sum_list lows / real (length lows)
            \<and> SILENCE_RMS_ADAPTIVE vs'
                = min SILENCE_RMS_MAX (max SILENCE_RMS_MIN (1.5 * ambientNoiseLevel vs'))
            \<and> threshold (fst (precheckLoudness vs ticks)) = SILENCE_RMS_ADAPTIVE vs'"
proof -
  let ?readings = "recentRMS vs @ [probe_avg ticks]"
  let ?window = "drop (length ?readings - 10) ?readings"
  have w: "(if length (recentRMS vs) \<ge> 10 then tl ?readings else ?readings) = ?window"
    using assms(1) by (rule rolling_window)
  have len: "length ?window \<le> 10" "3 \<le> length ?window" using assms by auto
  have l3: "length (take 3 (sort ?window)) = 3" using len(2) by simp
  show ?thesis
    unfolding Let_def precheckLoudness_threshold_returned precheckLoudness_state w
    using len(1) l3 lowest_three[of ?window] by (simp add: mult.commute)
qed

theorem adaptive_threshold_after_probe_witness:
  "recentRMS (probe_all vad_initial loud_probes) = [0.03, 0.03, 0.03]
   \<and> SILENCE_RMS_ADAPTIVE (snd (precheckLoudness (probe_all vad_initial loud_probes) [0.001, 0.005]))
       = 0.015
   \<and> recentRMS (snd (precheckLoudness (probe_all vad_initial loud_probes) [0.001, 0.005]))
       = [0.03, 0.03, 0.03, 0.003]"
proof -
  have h: "length (recentRMS (probe_all vad_initial loud_probes)) \<le> 10"
    "2 \<le> length (recentRMS (probe_all vad_initial loud_probes))"
    by (simp_all add: loud_probes_state)
  from adaptive_threshold_after_probe[OF h, of "[0.001, 0.005]"]
  show ?thesis
    by (simp add: Let_def loud_probes_state probe_avg_def SILENCE_RMS_MAX_def SILENCE_RMS_MIN_def)
qed

section \<open>Results: the pull-path fusion consumer\<close>

lemma fusion_catch_keeps:
  "lastCheck (fst (fusion_catch refs message done)) = lastCheck refs"
  "set (snd (fusion_catch refs message done)) \<subseteq> set done \<union> {FusionConsoleError message}"
  by (auto simp: fusion_catch_def)

lemma attempt_fuse_lastCheck:
  "lastCheck (fst (attempt_fuse refs env done)) = lastCheck refs"
  by (simp add: attempt_fuse_def fusion_catch_keeps Let_def split: fuse_reply.split)

lemma performFusion_fuse_only_if:
  assumes "FuseRequest \<in> set (snd (performFusion cfg refs env))"
  shows "isPepperAvailable (fe_gate env) \<and> fe_now env - lastCheck refs \<ge> 2000
     \<and> (case fe_stats env of
          StatsNotOk status \<Rightarrow> True
        | StatsOk stats \<Rightarrow>
            has_both stats
            \<and> (case face_latest_age_ms stats of None \<Rightarrow> False | Some a \<Rightarrow> a \<le> 10000)
            \<and> (case audio_latest_age_ms stats of None \<Rightarrow> False | Some a \<Rightarrow> a \<le> 10000)
        | _ \<Rightarrow> False)"
  using assms
  by (auto simp: performFusion_def fusion_catch_def age_above_def Let_def
      split: if_splits stats_reply.splits option.splits)

lemma performFusion_skips:
  assumes "\<not> isPepperAvailable (fe_gate env)
     \<or> (case fe_stats env of
           StatsOk stats \<Rightarrow>
             \<not> has_both stats
             \<or> (case face_latest_age_ms stats of None \<Rightarrow> True | Some a \<Rightarrow> a > 10000)
             \<or> (case audio_latest_age_ms stats of None \<Rightarrow> True | Some a \<Rightarrow> a > 10000)
         | _ \<Rightarrow> False)"
  shows "FuseRequest \<notin> set (snd (performFusion cfg refs env))
     \<and> \<not> raises_error refs (performFusion cfg refs env)"
  using assms
  by (auto simp: performFusion_def raises_error_def age_above_def Let_def
      split: if_splits stats_reply.splits option.splits)

lemma both_fresh_fuses:
  "snd (performFusion active_config fusion_initial both_fresh)
     = [FusionGateQuery, StatsRequest, FuseRequest, FusionOnUpdate happy_fusion]"
  by (simp add: performFusion_def active_config_def fusion_initial_def both_fresh_def
      isPepperAvailable_def age_above_def attempt_fuse_def Let_def)

text \<open>
  C5, as stated: a fuse request is sent only if the buffer reports detections of both
  modalities. At the tick \<open>stats_down\<close> the buffer-stats endpoint answers 503, the
  consumer knows nothing of the buffer, and it sends the fuse request all the same.
\<close>

theorem fuse_without_stats_counterexample:
  "FuseRequest \<in> set (snd (performFusion active_config fusion_initial stats_down))
   \<and> fe_stats stats_down = StatsNotOk 503"
  by (simp add: performFusion_def active_config_def fusion_initial_def stats_down_def
      isPepperAvailable_def attempt_fuse_def Let_def)

text \<open>
  C5, amended: an attempt sends a fuse request only if the gate check returned
  available, at least 2 s have passed since the last recorded buffer check, and the
  buffer-stats reply either is not OK (the checks on the buffer are then bypassed) or
  reports both modalities with both latest ages present and at most 10 s. When the gate
  reads busy, or an OK reply lacks a modality, lacks an age or has an age above 10 s,
  the attempt is a silent skip: no fuse request, no error state, no error log.
\<close>

theorem fuse_request_conditions:
  "(FuseRequest \<in> set (snd (performFusion cfg refs env)) \<longrightarrow>
      isPepperAvailable (fe_gate env) \<and> fe_now env - lastCheck refs \<ge> 2000
      \<and> (case fe_stats env of
           StatsNotOk status \<Rightarrow> True
         | StatsOk stats \<Rightarrow>
             has_both stats
             \<and> (case face_latest_age_ms stats of None \<Rightarrow> False | Some a \<Rightarrow> a \<le> 10000)
             \<and> (case audio_latest_age_ms stats of None \<Rightarrow> False | Some a \<Rightarrow> a \<le> 10000)
         | _ \<Rightarrow> False))
   \<and> (\<not> isPepperAvailable (fe_gate env)
       \<or> (case fe_stats env of
             StatsOk stats \<Rightarrow>
               \<not> has_both stats
               \<or> (case face_latest_age_ms stats of None \<Rightarrow> True | Some a \<Rightarrow> a > 10000)
               \<or> (case audio_latest_age_ms stats of None \<Rightarrow> True | Some a \<Rightarrow> a > 10000)
           | _ \<Rightarrow> False)
       \<longrightarrow> FuseRequest \<notin> set (snd (performFusion cfg refs env))
           \<and> \<not> raises_error refs (performFusion cfg refs env))"
  using performFusion_fuse_only_if[of cfg refs env] performFusion_skips[of env cfg refs]
  by blast

theorem fuse_request_conditions_witness:
  "FuseRequest \<in> set (snd (performFusion active_config fusion_initial both_fresh))
   \<and> isPepperAvailable (fe_gate both_fresh)
   \<and> snd (performFusion active_config fusion_initial (both_fresh\<lparr>fe_gate := GateStatus (Some 0)\<rparr>))
       = [FusionGateQuery]
   \<and> \<not> raises_error fusion_initial
         (performFusion active_config fusion_initial (both_fresh\<lparr>fe_gate := GateStatus (Some 0)\<rparr>))"
proof -
  have f: "FuseRequest \<in> set (snd (performFusion active_config fusion_initial both_fresh))"
    by (simp add: both_fresh_fuses)
  have b: "\<not> isPepperAvailable (fe_gate (both_fresh\<lparr>fe_gate := GateStatus (Some 0)\<rparr>))"
    by (simp add: isPepperAvailable_def)
  have e: "snd (performFusion active_config fusion_initial (both_fresh\<lparr>fe_gate := GateStatus (Some 0)\<rparr>))
       = [FusionGateQuery]"
    by (simp add: performFusion_def active_config_def fusion_initial_def isPepperAvailable_def)
  from fuse_request_conditions[of active_config fusion_initial both_fresh] f
    fuse_request_conditions[of active_config fusion_initial
      "both_fresh\<lparr>fe_gate := GateStatus (Some 0)\<rparr>"] b e
  show ?thesis by blast
qed

lemma performFusion_debounced:
  "fe_now env - lastCheck refs < 2000 \<Longrightarrow>
   \<not> sends_request (snd (performFusion cfg refs env))
   \<and> lastCheck (fst (performFusion cfg refs env)) = lastCheck refs"
  by (simp add: performFusion_def sends_request_def)

lemma performFusion_lastCheck:
  "StatsRequest \<in> set (snd (performFusion cfg refs env)) \<Longrightarrow>
   lastCheck (fst (performFusion cfg refs env))
     = (case fe_stats env of StatsOk stats \<Rightarrow> fe_now env | _ \<Rightarrow> lastCheck refs)"
  by (auto simp: performFusion_def attempt_fuse_lastCheck fusion_catch_keeps Let_def
      split: if_splits stats_reply.splits)

text \<open>
  The debounce the code provides: a tick that comes less than 2 s after the recorded
  time of the last buffer check sends neither a buffer-stats nor a fuse request and
  leaves the record alone. A buffer check is recorded, at the time of its tick, only
  when its buffer-stats reply is OK and its body parses. Hence a tick less than 2 s
  after a tick whose buffer check was answered so sends no request.
\<close>

lemma performFusion_debounce_recorded:
  "(fe_now env - lastCheck refs < 2000 \<longrightarrow>
      \<not> sends_request (snd (performFusion cfg refs env))
      \<and> lastCheck (fst (performFusion cfg refs env)) = lastCheck refs)
   \<and> (StatsRequest \<in> set (snd (performFusion cfg refs env)) \<longrightarrow>
        lastCheck (fst (performFusion cfg refs env))
          = (case fe_stats env of StatsOk stats \<Rightarrow> fe_now env | _ \<Rightarrow> lastCheck refs))
   \<and> (StatsRequest \<in> set (snd (performFusion cfg refs env))
        \<and> (case fe_stats env of StatsOk stats \<Rightarrow> True | _ \<Rightarrow> False)
        \<and> fe_now env' - fe_now env < 2000 \<longrightarrow>
        \<not> sends_request (snd (performFusion cfg' (fst (performFusion cfg refs env)) env')))"
proof (intro conjI impI)
  assume "fe_now env - lastCheck refs < 2000"
  then show "\<not> sends_request (snd (performFusion cfg refs env))"
    "lastCheck (fst (performFusion cfg refs env)) = lastCheck refs"
    using performFusion_debounced[of env refs cfg] by simp_all
next
  assume "StatsRequest \<in> set (snd (performFusion cfg refs env))"
  then show "lastCheck (fst (performFusion cfg refs env))
          = (case fe_stats env of StatsOk stats \<Rightarrow> fe_now env | _ \<Rightarrow> lastCheck refs)"
    by (rule performFusion_lastCheck)
next
  assume a: "StatsRequest \<in> set (snd (performFusion cfg refs env))
        \<and> (case fe_stats env of StatsOk stats \<Rightarrow> True | _ \<Rightarrow> False)
        \<and> fe_now env' - fe_now env < 2000"
  then have "lastCheck (fst (performFusion cfg refs env)) = fe_now env"
    using performFusion_lastCheck[of cfg refs env] by (auto split: stats_reply.splits)
  with a show "\<not> sends_request (snd (performFusion cfg' (fst (performFusion cfg refs env)) env'))"
    using performFusion_debounced[of env' "fst (performFusion cfg refs env)" cfg'] by simp
qed

text \<open>
  C8: the claim is what the comments of \<open>performFusion\<close> say (check buffer-stats every
  2 s at the least, skip a tick to save requests), and the code does not keep it. The
  time of a check is stored only after the reply was OK and its body was parsed. At the
  tick \<open>stats_down\<close> the buffer-stats request is answered 503, at the tick
  \<open>stats_unparsed\<close> it is answered 200 with a body that is not JSON: in both cases the
  recorded time stays 0, and the tick one second later sends the buffer-stats request
  again.
\<close>

theorem poll_debounce_failing_input:
  "StatsRequest \<in> set (snd (performFusion active_config fusion_initial stats_down))
   \<and> lastCheck (fst (performFusion active_config fusion_initial stats_down)) = 0
   \<and> StatsRequest \<in> set (snd (performFusion active_config
          (fst (performFusion active_config fusion_initial stats_down))
          (stats_down\<lparr>fe_now := 1700000001000\<rparr>)))
   \<and> fe_now (stats_down\<lparr>fe_now := 1700000001000\<rparr>) - fe_now stats_down = 1000
   \<and> StatsRequest \<in> set (snd (performFusion active_config fusion_initial stats_unparsed))
   \<and> lastCheck (fst (performFusion active_config fusion_initial stats_unparsed)) = 0
   \<and> StatsRequest \<in> set (snd (performFusion active_config
          (fst (performFusion active_config fusion_initial stats_unparsed))
          (stats_unparsed\<lparr>fe_now := 1700000001000\<rparr>)))
   \<and> fe_now (stats_unparsed\<lparr>fe_now := 1700000001000\<rparr>) - fe_now stats_unparsed = 1000"
  by (simp add: performFusion_def active_config_def fusion_initial_def stats_down_def
      stats_unparsed_def isPepperAvailable_def attempt_fuse_def fusion_catch_def Let_def)

section \<open>Results: weighted fusion\<close>

lemma clamp_pair_sum:
  fixes d :: real
  shows "clamp (0.45 + d) 0.30 0.70 + clamp (0.55 - d) 0.30 0.70 = 1"
  unfolding clamp_def by (cases "d \<le> - 0.15"; cases "0.25 \<le> d") (auto simp: max_def min_def)

lemma dynamic_weights_clamped:
  "dynamic_weights cf cs =
     (clamp (0.45 + 0.5 * (cf - cs)) 0.30 0.70, clamp (0.55 - 0.5 * (cf - cs)) 0.30 0.70)"
proof -
  have "clamp (0.45 + 0.5 * (cf - cs)) 0.30 0.70 + clamp (0.55 - 0.5 * (cf - cs)) 0.30 0.70 = 1"
    by (rule clamp_pair_sum)
  moreover have "(if cf > cs then 0.45 + 0.5 * \<bar>cf - cs\<bar>
                  else if cs > cf then 0.45 - 0.5 * \<bar>cf - cs\<bar> else 0.45) = 0.45 + 0.5 * (cf - cs)"
    by (auto simp: abs_if field_simps)
  moreover have "(if cf > cs then 0.55 - 0.5 * \<bar>cf - cs\<bar>
                  else if cs > cf then 0.55 + 0.5 * \<bar>cf - cs\<bar> else 0.55) = 0.55 - 0.5 * (cf - cs)"
    by (auto simp: abs_if field_simps)
  ultimately show ?thesis by (simp add: dynamic_weights_def Let_def)
qed

lemma clamp_bounds: "lo \<le> hi \<Longrightarrow> lo \<le> clamp x lo hi \<and> clamp x lo hi \<le> hi"
  by (simp add: clamp_def)

lemma architecture_weights_agree:
  "audio_score \<le> face_score \<Longrightarrow>
   architecture_weights face_score audio_score = dynamic_weights face_score audio_score"
  by (simp add: architecture_weights_def dynamic_weights_def Let_def)

text \<open>
  C2: for two conflicting detections the weights are the base weights 0.45 and 0.55
  shifted by half the confidence gap toward the more confident modality and clamped to
  [0.30, 0.70]; they sum to 1, so the renormalisation leaves them as they are. The fused
  label is the face's when its weighted confidence is at least the speech's, else the
  speech's; the fused confidence is the higher weighted confidence times 0.90, clamped
  to [0, 1]. For a happy face at 0.9 and a sad voice at 0.6 the weights are 0.60 and 0.40
  and the result is happy with confidence 0.486.
\<close>

theorem weighted_fusion_conflict:
  "fst (dynamic_weights cf cs) = clamp (0.45 + 0.5 * (cf - cs)) 0.30 0.70
   \<and> snd (dynamic_weights cf cs) = clamp (0.55 - 0.5 * (cf - cs)) 0.30 0.70
   \<and> fst (dynamic_weights cf cs) + snd (dynamic_weights cf cs) = 1
   \<and> fr_weight_face (weighted_fusion face speech)
       = fst (dynamic_weights (d_confidence face) (d_confidence speech))
   \<and> fr_weight_speech (weighted_fusion face speech)
       = snd (dynamic_weights (d_confidence face) (d_confidence speech))
   \<and> fr_emotion (weighted_fusion face speech)
       = (if fr_weight_face (weighted_fusion face speech) * d_confidence face
             \<ge> fr_weight_speech (weighted_fusion face speech) * d_confidence speech
          then d_label face else d_label speech)
   \<and> fr_confidence (weighted_fusion face speech)
       = clamp (max (fr_weight_face (weighted_fusion face speech) * d_confidence face)
                    (fr_weight_speech (weighted_fusion face speech) * d_confidence speech)
                * 0.90) 0 1
   \<and> 0 \<le> fr_confidence (weighted_fusion face speech)
   \<and> fr_confidence (weighted_fusion face speech) \<le> 1
   \<and> dynamic_weights 0.9 0.6 = (0.60, 0.40)
   \<and> weighted_fusion face_happy speech_sad
       = \<lparr>fr_emotion = ''happy'', fr_confidence = 0.486, fr_weight_face = 0.60,
          fr_weight_speech = 0.40\<rparr>"
proof -
  let ?wf = "fr_weight_face (weighted_fusion face speech)"
  let ?ws = "fr_weight_speech (weighted_fusion face speech)"
  have f1: "fst (dynamic_weights cf cs) = clamp (0.45 + 0.5 * (cf - cs)) 0.30 0.70"
    and f2: "snd (dynamic_weights cf cs) = clamp (0.55 - 0.5 * (cf - cs)) 0.30 0.70"
    by (simp_all add: dynamic_weights_clamped)
  have f3: "fst (dynamic_weights cf cs) + snd (dynamic_weights cf cs) = 1"
    unfolding f1 f2 by (rule clamp_pair_sum)
  obtain wf ws where w: "dynamic_weights (d_confidence face) (d_confidence speech) = (wf, ws)"
    by (cases "dynamic_weights (d_confidence face) (d_confidence speech)")
  have f4: "?wf = fst (dynamic_weights (d_confidence face) (d_confidence speech))"
    and f5: "?ws = snd (dynamic_weights (d_confidence face) (d_confidence speech))"
    by (simp_all add: weighted_fusion_def w Let_def)
  have wf: "?wf = wf" and ws: "?ws = ws" by (simp_all add: f4 f5 w)
  have f6: "fr_emotion (weighted_fusion face speech)
       = (if ?wf * d_confidence face \<ge> ?ws * d_confidence speech
          then d_label face else d_label speech)"
    unfolding wf ws by (simp add: weighted_fusion_def w Let_def)
  have f7: "fr_confidence (weighted_fusion face speech)
       = clamp (max (?wf * d_confidence face) (?ws * d_confidence speech) * 0.90) 0 1"
    unfolding wf ws by (simp add: weighted_fusion_def w max_def Let_def)
  have f8: "0 \<le> fr_confidence (weighted_fusion face speech)"
    and f9: "fr_confidence (weighted_fusion face speech) \<le> 1"
    unfolding f7 using clamp_bounds[of 0 1] by simp_all
  have f10: "dynamic_weights 0.9 0.6 = (0.60, 0.40)"
    by (simp add: dynamic_weights_clamped clamp_def)
  from f10 have ex1': "dynamic_weights (9 / 10) (3 / 5) = (3 / 5, 2 / 5)" by simp
  have f11: "weighted_fusion face_happy speech_sad
       = \<lparr>fr_emotion = ''happy'', fr_confidence = 0.486, fr_weight_face = 0.60,
          fr_weight_speech = 0.40\<rparr>"
    by (simp add: weighted_fusion_def face_happy_def speech_sad_def ex1' clamp_def Let_def)
  show ?thesis
    by (intro conjI f1 f2 f3 f4 f5 f6 f7 f8 f9 f10 f11)
qed

end
